theory Spec2Isabelle
  imports Main
begin

section \<open>The MCP server registry of a vault\<close>

text \<open>
  The TypeScript module under study exports \<^verbatim>\<open>getMcpServers\<close>, \<^verbatim>\<open>addMcpServer\<close>,
  \<^verbatim>\<open>updateMcpServer\<close> and \<^verbatim>\<open>removeMcpServer\<close>. Each resolves the active vault of a
  window, computes the path of that vault's registry file and reads or rewrites the
  JSON document stored there. The embedding is by explicit state passing: the
  collaborators and the disk are the fields of a \<open>world\<close>, every \<^verbatim>\<open>throw\<close> is an
  \<open>Inl\<close> of a sum, and every \<^verbatim>\<open>try/catch\<close> is a case distinction on that sum.
\<close>

subsection \<open>Data\<close>

text \<open>
  A vault as the registry sees it: \<^verbatim>\<open>{ id, path }\<close>. The field \<^verbatim>\<open>id\<close> is written
  \<open>id_vault\<close>, since \<open>id\<close> is the identity function of HOL.
\<close>

record vault =
  id_vault :: string
  path :: string

text \<open>
  A server record (\<^verbatim>\<open>z.infer<typeof McpServerSchema>\<close>): an optional \<^verbatim>\<open>id\<close> and the
  configuration fields, which the registry never inspects and which are therefore a
  type parameter. \<open>None\<close> is JavaScript's \<^verbatim>\<open>undefined\<close>.
\<close>

record 'f server =
  id_server :: "string option"
  config :: 'f

text \<open>
  The registry document \<^verbatim>\<open>{ servers: { ... } }\<close>. The map holds the own enumerable
  properties of the \<^verbatim>\<open>servers\<close> object, which is what \<^verbatim>\<open>JSON.stringify\<close> writes and
  what a later read sees.
\<close>

record 'f registry =
  servers :: "string \<rightharpoonup> 'f server"

datatype error = NoVaultsFound | ServerNotFound string | WriteFailed string

text \<open>
  What a path holds on disk: nothing (\<open>None\<close> in the map \<open>files\<close>), bytes that do not
  parse or do not pass the schema, or a document that does.
\<close>

datatype 'f file_content = Malformed | Document "'f registry"

text \<open>
  The world outside the module: the vault list that \<^verbatim>\<open>vaultManager.getVaults()\<close> returns,
  the collaborator \<^verbatim>\<open>windowVaultManager.getActiveVaultForWindow\<close> (its code is not part of
  the sources at hand, so it is a parameter), the files, and the paths at which a write
  fails. Window identifiers are JavaScript numbers; the model takes them as integers,
  so \<^verbatim>\<open>NaN\<close> and fractions are left out.
\<close>

record 'f world =
  vaults :: "vault list"
  activeVaultForWindow :: "int \<Rightarrow> vault list \<Rightarrow> vault option"
  files :: "string \<rightharpoonup> 'f file_content"
  readOnly :: "string set"

subsection \<open>Vault resolution\<close>

text \<open>
  \<^verbatim>\<open>getActiveVault(windowId?)\<close>: throws when there is no vault; asks the collaborator
  only under \<^verbatim>\<open>if (windowId)\<close>, which is false for \<^verbatim>\<open>undefined\<close> and for \<^verbatim>\<open>0\<close>;
  falls back to \<^verbatim>\<open>vaults[0]\<close>.
\<close>

definition getActiveVault :: "'f world \<Rightarrow> int option \<Rightarrow> error + vault" where
  "getActiveVault w windowId =
     (case vaults w of
        [] \<Rightarrow> Inl NoVaultsFound
      | v0 # rest \<Rightarrow>
          (case windowId of
             None \<Rightarrow> Inr v0
           | Some n \<Rightarrow>
               if n = 0 then Inr v0
               else (case activeVaultForWindow w n (vaults w) of
                       Some activeVault \<Rightarrow> Inr activeVault
                     | None \<Rightarrow> Inr v0)))"

subsection \<open>Property access on a plain JavaScript object\<close>

text \<open>
  The \<^verbatim>\<open>servers\<close> object is an ordinary object: the literal \<^verbatim>\<open>{ servers: {} }\<close> of
  the source, or the result of parsing JSON. Reading \<^verbatim>\<open>obj[k]\<close> therefore returns the
  own property when there is one and otherwise what \<^verbatim>\<open>Object.prototype\<close> holds under
  that name. These are the property names of \<^verbatim>\<open>Object.prototype\<close>; every one of them
  reads as a value that is true in a condition.
\<close>

definition objectPrototypeKeys :: "string list" where
  "objectPrototypeKeys =
     [''constructor'', ''hasOwnProperty'', ''isPrototypeOf'', ''propertyIsEnumerable'',
      ''toLocaleString'', ''toString'', ''valueOf'', ''__proto__'',
      ''__defineGetter__'', ''__defineSetter__'', ''__lookupGetter__'', ''__lookupSetter__'']"

text \<open>
  The condition \<^verbatim>\<open>registry.servers[serverId]\<close> as the source tests it. A stored record
  is an object and so always counts as true.
\<close>

definition truthyProperty :: "(string \<rightharpoonup> 'v) \<Rightarrow> string \<Rightarrow> bool" where
  "truthyProperty obj k =
     (case obj k of Some v \<Rightarrow> True | None \<Rightarrow> k \<in> set objectPrototypeKeys)"

text \<open>
  The assignment \<^verbatim>\<open>obj[k] = v\<close> creates or replaces the own property \<open>k\<close>, with one
  exception: \<^verbatim>\<open>__proto__\<close> is an accessor of \<^verbatim>\<open>Object.prototype\<close>, so that assigning
  to it when the object has no own property of that name changes the prototype and
  leaves the own properties as they were.
\<close>

definition assignProperty :: "(string \<rightharpoonup> 'v) \<Rightarrow> string \<Rightarrow> 'v \<Rightarrow> (string \<rightharpoonup> 'v)" where
  "assignProperty obj k v =
     (if k = ''__proto__'' \<and> obj k = None then obj else obj(k \<mapsto> v))"

text \<open>\<^verbatim>\<open>delete obj[k]\<close> removes the own property, if any.\<close>

definition deleteProperty :: "(string \<rightharpoonup> 'v) \<Rightarrow> string \<Rightarrow> (string \<rightharpoonup> 'v)" where
  "deleteProperty obj k = obj(k := None)"

text \<open>
  \<^verbatim>\<open>!server.id\<close>: true for \<^verbatim>\<open>undefined\<close> and for the empty string.
\<close>

definition falsy :: "string option \<Rightarrow> bool" where
  "falsy s = (case s of None \<Rightarrow> True | Some t \<Rightarrow> t = [])"

text \<open>
  The property key that \<^verbatim>\<open>servers[server.id]\<close> uses: the string itself, and the
  string \<^verbatim>\<open>"undefined"\<close> for a missing id.
\<close>

definition propertyKey :: "string option \<Rightarrow> string" where
  "propertyKey s = (case s of Some t \<Rightarrow> t | None \<Rightarrow> ''undefined'')"

subsection \<open>Library functions the module calls\<close>

text \<open>
  \<^verbatim>\<open>path.join\<close> of Node, in its POSIX form: the non-empty arguments are joined with
  \<^verbatim>\<open>/\<close> and the result is normalised. Normalisation drops empty and \<^verbatim>\<open>.\<close> segments,
  lets a \<^verbatim>\<open>..\<close> segment cancel the segment before it (a relative path keeps the
  \<^verbatim>\<open>..\<close> that have nothing to cancel, an absolute path drops them), and keeps a leading
  and a trailing separator.
\<close>

fun splitSegments :: "string \<Rightarrow> string list" where
  "splitSegments [] = [[]]"
| "splitSegments (c # cs) =
     (if c = CHR ''/'' then [] # splitSegments cs
      else (case splitSegments cs of
              [] \<Rightarrow> [[c]]
            | s # ss \<Rightarrow> (c # s) # ss))"

fun joinSegments :: "string list \<Rightarrow> string" where
  "joinSegments [] = []"
| "joinSegments [s] = s"
| "joinSegments (s # t) = s @ ''/'' @ joinSegments t"

text \<open>
  \<^verbatim>\<open>normalizeString\<close>: the segments kept so far are the second argument, last one
  first.
\<close>

fun normalizeSegments :: "bool \<Rightarrow> string list \<Rightarrow> string list \<Rightarrow> string list" where
  "normalizeSegments allowAboveRoot kept [] = rev kept"
| "normalizeSegments allowAboveRoot kept (s # ss) =
     (if s = [] \<or> s = ''.'' then normalizeSegments allowAboveRoot kept ss
      else if s = ''..'' then
        (case kept of
           [] \<Rightarrow>
             if allowAboveRoot then normalizeSegments allowAboveRoot [''..''] ss
             else normalizeSegments allowAboveRoot [] ss
         | t # ts \<Rightarrow>
             if t = ''..'' then
               (if allowAboveRoot then normalizeSegments allowAboveRoot (''..'' # kept) ss
                else normalizeSegments allowAboveRoot kept ss)
             else normalizeSegments allowAboveRoot ts ss)
      else normalizeSegments allowAboveRoot (s # kept) ss)"

definition path_normalize :: "string \<Rightarrow> string" where
  "path_normalize p =
     (if p = [] then ''.''
      else
        (let isAbsolute = (hd p = CHR ''/'');
             trailingSeparator = (last p = CHR ''/'');
             body = joinSegments (normalizeSegments (\<not> isAbsolute) [] (splitSegments p))
         in if body = [] then
              (if isAbsolute then ''/'' else if trailingSeparator then ''./'' else ''.'')
            else (if isAbsolute then ''/'' else []) @ body @
                 (if trailingSeparator then ''/'' else [])))"

definition path_join :: "string list \<Rightarrow> string" where
  "path_join segments =
     (let joined = joinSegments (filter (\<lambda>s. s \<noteq> []) segments)
      in if joined = [] then ''.'' else path_normalize joined)"

text \<open>
  \<^verbatim>\<open>uuidv4()\<close> of the \<^verbatim>\<open>uuid\<close> package draws a random identifier. The operations
  below take the string it would return as an argument; what is known of that string
  is its textual form: 36 characters, each a lower-case hexadecimal digit or a hyphen.
\<close>

definition uuidv4_output :: "string \<Rightarrow> bool" where
  "uuidv4_output u = (length u = 36 \<and> list_all (\<lambda>c. c \<in> set ''0123456789abcdef-'') u)"

subsection \<open>The JSON document store\<close>

text \<open>
  Modelled from the spec: \<^verbatim>\<open>readJsonFile\<close> of \<^verbatim>\<open>core/utils/json-file-utils\<close>, whose
  code is not part of the sources at hand. It parses the file at the path; if the file
  does not exist or fails schema validation it returns the default without raising,
  and otherwise the validated document.
\<close>

definition readJsonFile :: "'f world \<Rightarrow> string \<Rightarrow> 'f registry \<Rightarrow> 'f registry" where
  "readJsonFile w filePath defaultValue =
     (case files w filePath of
        None \<Rightarrow> defaultValue
      | Some Malformed \<Rightarrow> defaultValue
      | Some (Document d) \<Rightarrow> d)"

text \<open>
  Modelled from the spec: \<^verbatim>\<open>writeJsonFile\<close> of the same missing file. It serialises the
  document and writes it to the path; a failing disk write is an error.
\<close>

definition writeJsonFile :: "'f world \<Rightarrow> string \<Rightarrow> 'f registry \<Rightarrow> error + 'f world" where
  "writeJsonFile w filePath data =
     (if filePath \<in> readOnly w then Inl (WriteFailed filePath)
      else Inr (w\<lparr>files := (files w)(filePath \<mapsto> Document data)\<rparr>))"

text \<open>
  Modelled from the spec: \<^verbatim>\<open>updateJsonFile\<close> of the same missing file. It reads the
  current document with the default-on-failure policy, applies the mutator and writes
  the result back; it returns the mutator's result. If the mutator raises, the update
  is aborted and no write occurs.
\<close>

definition updateJsonFile ::
  "'f world \<Rightarrow> string \<Rightarrow> ('f registry \<Rightarrow> error + 'f registry) \<Rightarrow> 'f registry
     \<Rightarrow> error + ('f registry \<times> 'f world)" where
  "updateJsonFile w filePath updateFn defaultValue =
     (case updateFn (readJsonFile w filePath defaultValue) of
        Inl e \<Rightarrow> Inl e
      | Inr updated \<Rightarrow>
          (case writeJsonFile w filePath updated of
             Inl e \<Rightarrow> Inl e
           | Inr w' \<Rightarrow> Inr (updated, w')))"

subsection \<open>The registry\<close>

definition getMcpServersRegistryPath :: "string \<Rightarrow> string" where
  "getMcpServersRegistryPath vaultPath =
     path_join [vaultPath, ''.vault'', ''mcp-servers-registry.json'']"

text \<open>The default document \<^verbatim>\<open>{ servers: {} }\<close> that every call passes.\<close>

definition emptyRegistry :: "'f registry" where
  "emptyRegistry = \<lparr>servers = Map.empty\<rparr>"

text \<open>
  Each exported function is a \<^verbatim>\<open>try\<close> block and a \<^verbatim>\<open>catch\<close> that logs and returns
  the default. The block is the function with suffix \<open>_try\<close>; its \<open>Inl\<close> is what the
  block throws. Logging is not modelled. The assignments \<^verbatim>\<open>server.id = ...\<close> also
  change the object of the caller; the model returns the result and the world only.
\<close>

definition getMcpServers_try :: "'f world \<Rightarrow> int option \<Rightarrow> error + (string \<rightharpoonup> 'f server)" where
  "getMcpServers_try w windowId =
     (case getActiveVault w windowId of
        Inl e \<Rightarrow> Inl e
      | Inr activeVault \<Rightarrow>
          Inr (servers (readJsonFile w (getMcpServersRegistryPath (path activeVault))
                          emptyRegistry)))"

definition getMcpServers :: "'f world \<Rightarrow> int option \<Rightarrow> (string \<rightharpoonup> 'f server)" where
  "getMcpServers w windowId =
     (case getMcpServers_try w windowId of Inl e \<Rightarrow> Map.empty | Inr registry \<Rightarrow> registry)"

text \<open>
  \<^verbatim>\<open>addMcpServer(server, windowId?)\<close>. The argument \<open>uuid\<close> is the string that
  \<^verbatim>\<open>uuidv4()\<close> returns if it is called. The result is the boolean and the world after
  the call.
\<close>

definition addMcpServer_try ::
  "'f world \<Rightarrow> string \<Rightarrow> 'f server \<Rightarrow> int option \<Rightarrow> error + 'f world" where
  "addMcpServer_try w uuid server windowId =
     (case getActiveVault w windowId of
        Inl e \<Rightarrow> Inl e
      | Inr activeVault \<Rightarrow>
          (let server' = (if falsy (id_server server)
                          then server\<lparr>id_server := Some uuid\<rparr> else server);
               registryPath = getMcpServersRegistryPath (path activeVault)
           in case updateJsonFile w registryPath
                     (\<lambda>registry. Inr (registry\<lparr>servers :=
                        assignProperty (servers registry)
                          (propertyKey (id_server server')) server'\<rparr>))
                     emptyRegistry of
                Inl e \<Rightarrow> Inl e
              | Inr (updated, w') \<Rightarrow> Inr w'))"

definition addMcpServer ::
  "'f world \<Rightarrow> string \<Rightarrow> 'f server \<Rightarrow> int option \<Rightarrow> bool \<times> 'f world" where
  "addMcpServer w uuid server windowId =
     (case addMcpServer_try w uuid server windowId of
        Inl e \<Rightarrow> (False, w)
      | Inr w' \<Rightarrow> (True, w'))"

text \<open>\<^verbatim>\<open>updateMcpServer(serverId, server, windowId?)\<close>.\<close>

definition updateMcpServer_try ::
  "'f world \<Rightarrow> string \<Rightarrow> 'f server \<Rightarrow> int option \<Rightarrow> error + 'f world" where
  "updateMcpServer_try w serverId server windowId =
     (case getActiveVault w windowId of
        Inl e \<Rightarrow> Inl e
      | Inr activeVault \<Rightarrow>
          (let server' = server\<lparr>id_server := Some serverId\<rparr>;
               registryPath = getMcpServersRegistryPath (path activeVault)
           in case updateJsonFile w registryPath
                     (\<lambda>registry.
                        if \<not> truthyProperty (servers registry) serverId
                        then Inl (ServerNotFound serverId)
                        else Inr (registry\<lparr>servers :=
                               assignProperty (servers registry) serverId server'\<rparr>))
                     emptyRegistry of
                Inl e \<Rightarrow> Inl e
              | Inr (updated, w') \<Rightarrow> Inr w'))"

definition updateMcpServer ::
  "'f world \<Rightarrow> string \<Rightarrow> 'f server \<Rightarrow> int option \<Rightarrow> bool \<times> 'f world" where
  "updateMcpServer w serverId server windowId =
     (case updateMcpServer_try w serverId server windowId of
        Inl e \<Rightarrow> (False, w)
      | Inr w' \<Rightarrow> (True, w'))"

text \<open>\<^verbatim>\<open>removeMcpServer(serverId, windowId?)\<close>.\<close>

definition removeMcpServer_try ::
  "'f world \<Rightarrow> string \<Rightarrow> int option \<Rightarrow> error + 'f world" where
  "removeMcpServer_try w serverId windowId =
     (case getActiveVault w windowId of
        Inl e \<Rightarrow> Inl e
      | Inr activeVault \<Rightarrow>
          (let registryPath = getMcpServersRegistryPath (path activeVault)
           in case updateJsonFile w registryPath
                     (\<lambda>registry.
                        if \<not> truthyProperty (servers registry) serverId
                        then Inl (ServerNotFound serverId)
                        else Inr (registry\<lparr>servers :=
                               deleteProperty (servers registry) serverId\<rparr>))
                     emptyRegistry of
                Inl e \<Rightarrow> Inl e
              | Inr (updated, w') \<Rightarrow> Inr w'))"

definition removeMcpServer :: "'f world \<Rightarrow> string \<Rightarrow> int option \<Rightarrow> bool \<times> 'f world" where
  "removeMcpServer w serverId windowId =
     (case removeMcpServer_try w serverId windowId of
        Inl e \<Rightarrow> (False, w)
      | Inr w' \<Rightarrow> (True, w'))"

subsection \<open>Sequences of calls\<close>

datatype 'f call =
    Add string "'f server" "int option"
  | Update string "'f server" "int option"
  | Remove string "int option"

fun perform :: "'f world \<Rightarrow> 'f call \<Rightarrow> 'f world" where
  "perform w (Add uuid server windowId) = snd (addMcpServer w uuid server windowId)"
| "perform w (Update serverId server windowId) = snd (updateMcpServer w serverId server windowId)"
| "perform w (Remove serverId windowId) = snd (removeMcpServer w serverId windowId)"

fun performAll :: "'f world \<Rightarrow> 'f call list \<Rightarrow> 'f world" where
  "performAll w [] = w"
| "performAll w (c # cs) = performAll (perform w c) cs"

text \<open>The invariant of the data model: every key is the \<^verbatim>\<open>id\<close> of its record.\<close>

definition keysAreIds :: "(string \<rightharpoonup> 'f server) \<Rightarrow> bool" where
  "keysAreIds m = (\<forall>k s. m k = Some s \<longrightarrow> id_server s = Some k)"

definition diskKeysAreIds :: "'f world \<Rightarrow> bool" where
  "diskKeysAreIds w = (\<forall>p d. files w p = Some (Document d) \<longrightarrow> keysAreIds (servers d))"

subsection \<open>Worlds to evaluate the functions on\<close>

definition vaultA :: vault where
  "vaultA = \<lparr>id_vault = ''a'', path = ''/home/a''\<rparr>"

definition vaultB :: vault where
  "vaultB = \<lparr>id_vault = ''b'', path = ''/home/b''\<rparr>"

definition registryA :: string where
  "registryA = ''/home/a/.vault/mcp-servers-registry.json''"

definition registryB :: string where
  "registryB = ''/home/b/.vault/mcp-servers-registry.json''"

text \<open>Two vaults, no file on disk, window 2 showing the second vault.\<close>

definition freshWorld :: "string world" where
  "freshWorld =
     \<lparr>vaults = [vaultA, vaultB],
      activeVaultForWindow = (\<lambda>n vs. if n = 2 then Some vaultB else None),
      files = Map.empty,
      readOnly = {}\<rparr>"

text \<open>The same with a collaborator that answers for every window.\<close>

definition eagerWorld :: "string world" where
  "eagerWorld = freshWorld\<lparr>activeVaultForWindow := (\<lambda>n vs. Some vaultB)\<rparr>"

definition noVaultWorld :: "string world" where
  "noVaultWorld = freshWorld\<lparr>vaults := []\<rparr>"

definition lockedWorld :: "string world" where
  "lockedWorld = freshWorld\<lparr>readOnly := {registryA}\<rparr>"

definition brokenWorld :: "string world" where
  "brokenWorld = freshWorld\<lparr>files := [registryA \<mapsto> Malformed]\<rparr>"

definition uuid1 :: string where
  "uuid1 = ''3b241101-e2bb-4255-8caf-4136c566a962''"

definition serverX :: "string server" where
  "serverX = \<lparr>id_server = None, config = ''x''\<rparr>"

definition serverY :: "string server" where
  "serverY = \<lparr>id_server = Some ''other'', config = ''y''\<rparr>"

text \<open>A disk whose registry already holds a record under \<open>uuid1\<close>.\<close>

definition usedWorld :: "string world" where
  "usedWorld =
     freshWorld\<lparr>files := [registryA \<mapsto>
        Document \<lparr>servers = [uuid1 \<mapsto> \<lparr>id_server = Some uuid1, config = ''old''\<rparr>]\<rparr>]\<rparr>"

text \<open>
  A sequence of calls on the first vault: add a record without id, update it, add a
  record with its own id, remove that one.
\<close>

definition someCalls :: "string call list" where
  "someCalls =
     [Add uuid1 serverX None, Update uuid1 serverY None,
      Add uuid1 \<lparr>id_server = Some ''s'', config = ''z''\<rparr> None, Remove ''s'' None]"

section \<open>Properties\<close>

lemmas example_defs =
  freshWorld_def eagerWorld_def noVaultWorld_def lockedWorld_def brokenWorld_def usedWorld_def
  vaultA_def vaultB_def registryA_def registryB_def uuid1_def serverX_def serverY_def

lemmas store_defs =
  readJsonFile_def writeJsonFile_def updateJsonFile_def getMcpServersRegistryPath_def
  path_join_def path_normalize_def emptyRegistry_def

lemmas object_defs =
  truthyProperty_def assignProperty_def deleteProperty_def falsy_def propertyKey_def
  objectPrototypeKeys_def

lemmas registry_defs =
  getMcpServers_def getMcpServers_try_def addMcpServer_def addMcpServer_try_def
  updateMcpServer_def updateMcpServer_try_def removeMcpServer_def removeMcpServer_try_def

subsection \<open>Vault resolution\<close>

lemma getActiveVault_cases:
  "getActiveVault w windowId =
     (if vaults w = [] then Inl NoVaultsFound
      else Inr (case windowId of
                  None \<Rightarrow> hd (vaults w)
                | Some n \<Rightarrow>
                    if n = 0 then hd (vaults w)
                    else (case activeVaultForWindow w n (vaults w) of
                            Some v \<Rightarrow> v
                          | None \<Rightarrow> hd (vaults w))))"
  by (cases "vaults w") (auto simp: getActiveVault_def split: option.splits)



subsection \<open>What each operation computes\<close>

lemma uuidv4_output_facts:
  "uuidv4_output u \<Longrightarrow> u \<noteq> [] \<and> u \<notin> set objectPrototypeKeys \<and> u \<noteq> ''__proto__''"
  by (auto simp: uuidv4_output_def objectPrototypeKeys_def)

lemma getActiveVault_files [simp]:
  "getActiveVault (w\<lparr>files := fs\<rparr>) windowId = getActiveVault w windowId"
  by (cases "vaults w"; cases windowId) (simp_all add: getActiveVault_def)

lemma readJsonFile_written [simp]:
  "readJsonFile (w\<lparr>files := (files w)(p \<mapsto> Document d)\<rparr>) p dflt = d"
  by (simp add: readJsonFile_def)

lemma readJsonFile_other [simp]:
  "q \<noteq> p \<Longrightarrow>
   readJsonFile (w\<lparr>files := (files w)(p \<mapsto> c)\<rparr>) q dflt = readJsonFile w q dflt"
  by (simp add: readJsonFile_def)

lemma servers_emptyRegistry [simp]: "servers emptyRegistry = Map.empty"
  by (simp add: emptyRegistry_def)

lemma updateJsonFile_cases:
  "updateJsonFile w p updateFn d =
     (case updateFn (readJsonFile w p d) of
        Inl e \<Rightarrow> Inl e
      | Inr updated \<Rightarrow>
          if p \<in> readOnly w then Inl (WriteFailed p)
          else Inr (updated, w\<lparr>files := (files w)(p \<mapsto> Document updated)\<rparr>))"
  by (simp add: updateJsonFile_def writeJsonFile_def split: sum.splits)

lemma getMcpServers_cases:
  "getMcpServers w windowId =
     (case getActiveVault w windowId of
        Inl e \<Rightarrow> Map.empty
      | Inr v \<Rightarrow> servers (readJsonFile w (getMcpServersRegistryPath (path v)) emptyRegistry))"
  by (simp add: getMcpServers_def getMcpServers_try_def split: sum.splits)

lemma getMcpServers_written:
  "getActiveVault w windowId = Inr v \<Longrightarrow>
   getMcpServers (w\<lparr>files := (files w)(getMcpServersRegistryPath (path v) \<mapsto> Document d)\<rparr>)
     windowId = servers d"
  by (simp add: getMcpServers_cases readJsonFile_def)

lemma addMcpServer_cases:
  "addMcpServer w uuid server windowId =
     (case getActiveVault w windowId of
        Inl e \<Rightarrow> (False, w)
      | Inr v \<Rightarrow>
          (let p = getMcpServersRegistryPath (path v);
               r = readJsonFile w p emptyRegistry;
               server' = (if falsy (id_server server)
                          then server\<lparr>id_server := Some uuid\<rparr> else server)
           in if p \<in> readOnly w then (False, w)
              else (True, w\<lparr>files := (files w)(p \<mapsto> Document (r\<lparr>servers :=
                      assignProperty (servers r) (propertyKey (id_server server')) server'\<rparr>))\<rparr>)))"
  by (simp add: addMcpServer_def addMcpServer_try_def updateJsonFile_cases Let_def
      split: sum.splits)

lemma updateMcpServer_cases:
  "updateMcpServer w serverId server windowId =
     (case getActiveVault w windowId of
        Inl e \<Rightarrow> (False, w)
      | Inr v \<Rightarrow>
          (let p = getMcpServersRegistryPath (path v);
               r = readJsonFile w p emptyRegistry
           in if \<not> truthyProperty (servers r) serverId \<or> p \<in> readOnly w then (False, w)
              else (True, w\<lparr>files := (files w)(p \<mapsto> Document (r\<lparr>servers :=
                      assignProperty (servers r) serverId
                        (server\<lparr>id_server := Some serverId\<rparr>)\<rparr>))\<rparr>)))"
  by (simp add: updateMcpServer_def updateMcpServer_try_def updateJsonFile_cases Let_def
      split: sum.splits)

lemma removeMcpServer_cases:
  "removeMcpServer w serverId windowId =
     (case getActiveVault w windowId of
        Inl e \<Rightarrow> (False, w)
      | Inr v \<Rightarrow>
          (let p = getMcpServersRegistryPath (path v);
               r = readJsonFile w p emptyRegistry
           in if \<not> truthyProperty (servers r) serverId \<or> p \<in> readOnly w then (False, w)
              else (True, w\<lparr>files := (files w)(p \<mapsto> Document (r\<lparr>servers :=
                      deleteProperty (servers r) serverId\<rparr>))\<rparr>)))"
  by (simp add: removeMcpServer_def removeMcpServer_try_def updateJsonFile_cases Let_def
      split: sum.splits)

subsection \<open>The example worlds\<close>

lemma registry_paths [simp]:
  "getMcpServersRegistryPath (path vaultA) = registryA"
  "getMcpServersRegistryPath (path vaultB) = registryB"
  by (simp_all add: getMcpServersRegistryPath_def path_join_def path_normalize_def Let_def
      example_defs)

lemma uuid1_output [simp]: "uuidv4_output uuid1"
  by (simp add: uuidv4_output_def uuid1_def)

lemma example_resolution [simp]:
  "getActiveVault freshWorld None = Inr vaultA"
  "getActiveVault usedWorld None = Inr vaultA"
  "getActiveVault lockedWorld None = Inr vaultA"
  "getActiveVault brokenWorld None = Inr vaultA"
  "getActiveVault noVaultWorld None = Inl NoVaultsFound"
  by (simp_all add: getActiveVault_def freshWorld_def usedWorld_def lockedWorld_def
      brokenWorld_def noVaultWorld_def)

lemma example_files:
  "files freshWorld = Map.empty"
  "files lockedWorld = Map.empty"
  "files noVaultWorld = Map.empty"
  "files brokenWorld = [registryA \<mapsto> Malformed]"
  "files usedWorld = [registryA \<mapsto>
     Document \<lparr>servers = [uuid1 \<mapsto> \<lparr>id_server = Some uuid1, config = ''old''\<rparr>]\<rparr>]"
  by (simp_all add: freshWorld_def lockedWorld_def noVaultWorld_def brokenWorld_def usedWorld_def)

lemma example_readOnly [simp]:
  "readOnly freshWorld = {}"
  "readOnly lockedWorld = {registryA}"
  "readOnly noVaultWorld = {}"
  "readOnly brokenWorld = {}"
  "readOnly usedWorld = {}"
  by (simp_all add: freshWorld_def lockedWorld_def noVaultWorld_def brokenWorld_def usedWorld_def)

lemma fresh_servers [simp]: "getMcpServers freshWorld None = Map.empty"
  by (simp add: getMcpServers_cases readJsonFile_def emptyRegistry_def example_files)

lemma used_servers:
  "getMcpServers usedWorld None = [uuid1 \<mapsto> \<lparr>id_server = Some uuid1, config = ''old''\<rparr>]"
  by (simp add: getMcpServers_cases readJsonFile_def example_files)

lemma toString_inherited:
  "truthyProperty (servers (emptyRegistry :: string registry)) ''toString''"
  by (simp add: truthyProperty_def objectPrototypeKeys_def)

lemma fresh_read: "readJsonFile freshWorld registryA emptyRegistry = emptyRegistry"
  by (simp add: readJsonFile_def example_files)

subsection \<open>The window identifier 0\<close>

lemma getActiveVault_unasked:
  "getActiveVault (w\<lparr>activeVaultForWindow := f\<rparr>) (Some 0) = getActiveVault w (Some 0)"
  "getActiveVault (w\<lparr>activeVaultForWindow := f\<rparr>) None = getActiveVault w None"
  by (simp_all add: getActiveVault_def split: list.splits)

lemma readJsonFile_collaborator [simp]:
  "readJsonFile (w\<lparr>activeVaultForWindow := f\<rparr>) p d = readJsonFile w p d"
  by (simp add: readJsonFile_def)

text \<open>
  Claim C9. With the window identifier 0, resolution is resolution without a window
  identifier: it returns the first known vault when there is one, and each of the four
  operations behaves as it does without a window identifier. The per-window association
  is not consulted: with any other collaborator \<open>f\<close> in its place, resolution and the
  four operations give the same results (the worlds returned differ in nothing but the
  collaborator they carry).
\<close>

theorem window_zero_is_unsupplied:
  "getActiveVault w (Some 0) = getActiveVault w None \<and>
   (vaults w \<noteq> [] \<longrightarrow> getActiveVault w (Some 0) = Inr (hd (vaults w))) \<and>
   getMcpServers w (Some 0) = getMcpServers w None \<and>
   addMcpServer w uuid server (Some 0) = addMcpServer w uuid server None \<and>
   updateMcpServer w serverId server (Some 0) = updateMcpServer w serverId server None \<and>
   removeMcpServer w serverId (Some 0) = removeMcpServer w serverId None \<and>
   getActiveVault (w\<lparr>activeVaultForWindow := f\<rparr>) (Some 0) = getActiveVault w (Some 0) \<and>
   getMcpServers (w\<lparr>activeVaultForWindow := f\<rparr>) (Some 0) = getMcpServers w (Some 0) \<and>
   addMcpServer (w\<lparr>activeVaultForWindow := f\<rparr>) uuid server (Some 0) =
     (fst (addMcpServer w uuid server (Some 0)),
      snd (addMcpServer w uuid server (Some 0))\<lparr>activeVaultForWindow := f\<rparr>) \<and>
   updateMcpServer (w\<lparr>activeVaultForWindow := f\<rparr>) serverId server (Some 0) =
     (fst (updateMcpServer w serverId server (Some 0)),
      snd (updateMcpServer w serverId server (Some 0))\<lparr>activeVaultForWindow := f\<rparr>) \<and>
   removeMcpServer (w\<lparr>activeVaultForWindow := f\<rparr>) serverId (Some 0) =
     (fst (removeMcpServer w serverId (Some 0)),
      snd (removeMcpServer w serverId (Some 0))\<lparr>activeVaultForWindow := f\<rparr>)"
proof -
  have same: "getActiveVault w (Some 0) = getActiveVault w None"
    by (simp add: getActiveVault_def split: list.splits)
  have first: "vaults w \<noteq> [] \<longrightarrow> getActiveVault w (Some 0) = Inr (hd (vaults w))"
    by (simp add: getActiveVault_cases)
  have ops:
    "getMcpServers w (Some 0) = getMcpServers w None"
    "addMcpServer w uuid server (Some 0) = addMcpServer w uuid server None"
    "updateMcpServer w serverId server (Some 0) = updateMcpServer w serverId server None"
    "removeMcpServer w serverId (Some 0) = removeMcpServer w serverId None"
    using same by (simp_all add: registry_defs)
  have unasked:
    "getMcpServers (w\<lparr>activeVaultForWindow := f\<rparr>) (Some 0) = getMcpServers w (Some 0)"
    "addMcpServer (w\<lparr>activeVaultForWindow := f\<rparr>) uuid server (Some 0) =
      (fst (addMcpServer w uuid server (Some 0)),
       snd (addMcpServer w uuid server (Some 0))\<lparr>activeVaultForWindow := f\<rparr>)"
    "updateMcpServer (w\<lparr>activeVaultForWindow := f\<rparr>) serverId server (Some 0) =
      (fst (updateMcpServer w serverId server (Some 0)),
       snd (updateMcpServer w serverId server (Some 0))\<lparr>activeVaultForWindow := f\<rparr>)"
    "removeMcpServer (w\<lparr>activeVaultForWindow := f\<rparr>) serverId (Some 0) =
      (fst (removeMcpServer w serverId (Some 0)),
       snd (removeMcpServer w serverId (Some 0))\<lparr>activeVaultForWindow := f\<rparr>)"
    by (cases "getActiveVault w (Some 0)";
        simp add: getMcpServers_cases addMcpServer_cases updateMcpServer_cases
          removeMcpServer_cases getActiveVault_unasked Let_def)+
  from same first ops unasked getActiveVault_unasked(1) show ?thesis
    by blast
qed

text \<open>
  A world whose collaborator answers for every window: window 1 gets the second vault,
  window 0 the first.
\<close>

theorem window_zero_is_unsupplied_witness:
  "vaults eagerWorld \<noteq> [] \<and> getActiveVault eagerWorld (Some 0) = Inr vaultA \<and>
   getActiveVault eagerWorld (Some 1) = Inr vaultB"
  using window_zero_is_unsupplied [of eagerWorld]
  by (simp add: example_defs getActiveVault_def)

subsection \<open>Failures never reach the caller\<close>

text \<open>
  Claim C1. The four exported functions are total functions into their result types: a
  mapping for \<open>getMcpServers\<close>, a boolean (with the world) for the three writers. What
  the \<^verbatim>\<open>try\<close> block throws, whatever the error \<open>e\<close>, is turned into the default: the
  empty mapping for the read, \<open>False\<close> for the writes, with the disk as it was. In
  particular this is so when vault resolution fails, when the registry file does not
  pass the schema, when the disk write fails, and when the mutator of
  \<open>updateMcpServer\<close> or \<open>removeMcpServer\<close> raises because its test of the id fails.
\<close>

theorem registry_operations_catch_failures:
  "(getMcpServers_try w windowId = Inl e \<longrightarrow> getMcpServers w windowId = Map.empty) \<and>
   (addMcpServer_try w uuid server windowId = Inl e \<longrightarrow>
      addMcpServer w uuid server windowId = (False, w)) \<and>
   (updateMcpServer_try w serverId server windowId = Inl e \<longrightarrow>
      updateMcpServer w serverId server windowId = (False, w)) \<and>
   (removeMcpServer_try w serverId windowId = Inl e \<longrightarrow>
      removeMcpServer w serverId windowId = (False, w)) \<and>
   (getActiveVault w windowId = Inl e \<longrightarrow>
      getMcpServers w windowId = Map.empty \<and>
      addMcpServer w uuid server windowId = (False, w) \<and>
      updateMcpServer w serverId server windowId = (False, w) \<and>
      removeMcpServer w serverId windowId = (False, w)) \<and>
   (getActiveVault w windowId = Inr v \<and>
    files w (getMcpServersRegistryPath (path v)) = Some Malformed \<longrightarrow>
      getMcpServers w windowId = Map.empty) \<and>
   (getActiveVault w windowId = Inr v \<and> getMcpServersRegistryPath (path v) \<in> readOnly w \<longrightarrow>
      addMcpServer w uuid server windowId = (False, w) \<and>
      updateMcpServer w serverId server windowId = (False, w) \<and>
      removeMcpServer w serverId windowId = (False, w)) \<and>
   (getActiveVault w windowId = Inr v \<and>
    \<not> truthyProperty
        (servers (readJsonFile w (getMcpServersRegistryPath (path v)) emptyRegistry)) serverId \<longrightarrow>
      updateMcpServer w serverId server windowId = (False, w) \<and>
      removeMcpServer w serverId windowId = (False, w))"
proof -
  have caught:
    "getMcpServers_try w windowId = Inl e \<longrightarrow> getMcpServers w windowId = Map.empty"
    "addMcpServer_try w uuid server windowId = Inl e \<longrightarrow>
       addMcpServer w uuid server windowId = (False, w)"
    "updateMcpServer_try w serverId server windowId = Inl e \<longrightarrow>
       updateMcpServer w serverId server windowId = (False, w)"
    "removeMcpServer_try w serverId windowId = Inl e \<longrightarrow>
       removeMcpServer w serverId windowId = (False, w)"
    by (simp_all add: getMcpServers_def addMcpServer_def updateMcpServer_def removeMcpServer_def)
  have resolution:
    "getActiveVault w windowId = Inl e \<longrightarrow>
      getMcpServers w windowId = Map.empty \<and>
      addMcpServer w uuid server windowId = (False, w) \<and>
      updateMcpServer w serverId server windowId = (False, w) \<and>
      removeMcpServer w serverId windowId = (False, w)"
    by (simp add: getMcpServers_cases addMcpServer_cases updateMcpServer_cases
        removeMcpServer_cases)
  have schema:
    "getActiveVault w windowId = Inr v \<and>
     files w (getMcpServersRegistryPath (path v)) = Some Malformed \<longrightarrow>
       getMcpServers w windowId = Map.empty"
    by (simp add: getMcpServers_cases readJsonFile_def)
  have disk:
    "getActiveVault w windowId = Inr v \<and> getMcpServersRegistryPath (path v) \<in> readOnly w \<longrightarrow>
      addMcpServer w uuid server windowId = (False, w) \<and>
      updateMcpServer w serverId server windowId = (False, w) \<and>
      removeMcpServer w serverId windowId = (False, w)"
    by (simp add: addMcpServer_cases updateMcpServer_cases removeMcpServer_cases Let_def)
  have mutator:
    "getActiveVault w windowId = Inr v \<and>
     \<not> truthyProperty
        (servers (readJsonFile w (getMcpServersRegistryPath (path v)) emptyRegistry)) serverId \<longrightarrow>
      updateMcpServer w serverId server windowId = (False, w) \<and>
      removeMcpServer w serverId windowId = (False, w)"
    by (simp add: updateMcpServer_cases removeMcpServer_cases Let_def)
  from caught resolution schema disk mutator show ?thesis by blast
qed

text \<open>
  The four kinds of failure on the example worlds: no vault, a malformed file, a disk
  that refuses the write, an id that the mutator does not find.
\<close>

theorem registry_operations_catch_failures_witness:
  "getActiveVault noVaultWorld None = Inl NoVaultsFound \<and>
   getMcpServers noVaultWorld None = Map.empty \<and>
   addMcpServer noVaultWorld uuid1 serverX None = (False, noVaultWorld) \<and>
   getActiveVault brokenWorld None = Inr vaultA \<and>
   files brokenWorld (getMcpServersRegistryPath (path vaultA)) = Some Malformed \<and>
   getMcpServers brokenWorld None = Map.empty \<and>
   getActiveVault lockedWorld None = Inr vaultA \<and>
   getMcpServersRegistryPath (path vaultA) \<in> readOnly lockedWorld \<and>
   addMcpServer lockedWorld uuid1 serverX None = (False, lockedWorld) \<and>
   updateMcpServer lockedWorld ''s'' serverX None = (False, lockedWorld) \<and>
   removeMcpServer lockedWorld ''s'' None = (False, lockedWorld) \<and>
   getActiveVault freshWorld None = Inr vaultA \<and>
   \<not> truthyProperty
      (servers (readJsonFile freshWorld (getMcpServersRegistryPath (path vaultA)) emptyRegistry))
      ''s'' \<and>
   updateMcpServer freshWorld ''s'' serverX None = (False, freshWorld) \<and>
   removeMcpServer freshWorld ''s'' None = (False, freshWorld)"
proof -
  have broken: "files brokenWorld (getMcpServersRegistryPath (path vaultA)) = Some Malformed"
    by (simp add: example_files)
  have absent: "\<not> truthyProperty
      (servers (readJsonFile freshWorld (getMcpServersRegistryPath (path vaultA)) emptyRegistry))
      ''s''"
    by (simp add: fresh_read truthyProperty_def objectPrototypeKeys_def)
  show ?thesis
    using registry_operations_catch_failures
        [of noVaultWorld None NoVaultsFound uuid1 serverX "''s''" vaultA]
      registry_operations_catch_failures
        [of brokenWorld None NoVaultsFound uuid1 serverX "''s''" vaultA]
      registry_operations_catch_failures
        [of lockedWorld None NoVaultsFound uuid1 serverX "''s''" vaultA]
      registry_operations_catch_failures
        [of freshWorld None NoVaultsFound uuid1 serverX "''s''" vaultA]
      broken absent
    by simp
qed

text \<open>
  Claim C7. For every vault path, reading the registry file when it is absent or does
  not pass the schema yields the default document \<^verbatim>\<open>{ servers: {} }\<close>; and
  \<open>getMcpServers\<close> returns the empty mapping whenever the vault it resolves has no
  registry file or a malformed one.
\<close>

theorem absent_or_malformed_reads_default:
  "((files w (getMcpServersRegistryPath p) = None \<or>
     files w (getMcpServersRegistryPath p) = Some Malformed) \<longrightarrow>
      readJsonFile w (getMcpServersRegistryPath p) emptyRegistry = emptyRegistry) \<and>
   ((\<forall>v. getActiveVault w windowId = Inr v \<longrightarrow>
          files w (getMcpServersRegistryPath (path v)) = None \<or>
          files w (getMcpServersRegistryPath (path v)) = Some Malformed) \<longrightarrow>
      getMcpServers w windowId = Map.empty)"
proof -
  have read: "files w q = None \<or> files w q = Some Malformed \<Longrightarrow>
      readJsonFile w q emptyRegistry = emptyRegistry" for q
    by (auto simp: readJsonFile_def)
  have "getMcpServers w windowId = Map.empty"
    if "\<forall>v. getActiveVault w windowId = Inr v \<longrightarrow>
          files w (getMcpServersRegistryPath (path v)) = None \<or>
          files w (getMcpServersRegistryPath (path v)) = Some Malformed"
  proof (cases "getActiveVault w windowId")
    case (Inl e)
    then show ?thesis by (simp add: getMcpServers_cases)
  next
    case (Inr v)
    with that read [of "getMcpServersRegistryPath (path v)"] show ?thesis
      by (simp add: getMcpServers_cases)
  qed
  with read show ?thesis by blast
qed

theorem absent_or_malformed_reads_default_witness:
  "files freshWorld (getMcpServersRegistryPath (path vaultA)) = None \<and>
   files brokenWorld (getMcpServersRegistryPath (path vaultA)) = Some Malformed \<and>
   readJsonFile freshWorld (getMcpServersRegistryPath (path vaultA)) emptyRegistry = emptyRegistry \<and>
   readJsonFile brokenWorld (getMcpServersRegistryPath (path vaultA)) emptyRegistry = emptyRegistry \<and>
   getMcpServers freshWorld None = Map.empty \<and>
   getMcpServers brokenWorld None = Map.empty"
proof -
  have a: "files freshWorld (getMcpServersRegistryPath (path vaultA)) = None"
    and b: "files brokenWorld (getMcpServersRegistryPath (path vaultA)) = Some Malformed"
    by (simp_all add: example_files)
  show ?thesis
    using absent_or_malformed_reads_default [of freshWorld "path vaultA" None]
      absent_or_malformed_reads_default [of brokenWorld "path vaultA" None] a b
    by simp
qed

subsection \<open>Adding a server\<close>

text \<open>
  Claim C3, as the code has it. For a record without id the identifier that the
  generator returns is assigned, and it is not empty; the code does not compare it with
  the keys already present, so it need not be distinct from them. On success, which is
  when the vault resolves and the write succeeds, the call returns true and the mapping
  afterwards is the mapping before with the record stored under that identifier,
  whatever was stored there; on failure the call returns false.
\<close>

theorem addMcpServer_generated_id:
  assumes "uuidv4_output uuid" and "id_server server = None"
  shows "uuid \<noteq> [] \<and>
    (case getActiveVault w windowId of
       Inl e \<Rightarrow> fst (addMcpServer w uuid server windowId) = False
     | Inr v \<Rightarrow>
         if getMcpServersRegistryPath (path v) \<in> readOnly w
         then fst (addMcpServer w uuid server windowId) = False
         else fst (addMcpServer w uuid server windowId) = True \<and>
              getMcpServers (snd (addMcpServer w uuid server windowId)) windowId =
                (getMcpServers w windowId)(uuid \<mapsto> server\<lparr>id_server := Some uuid\<rparr>))"
proof -
  from assms(1) have u: "uuid \<noteq> []" "uuid \<noteq> ''__proto__''"
    using uuidv4_output_facts by blast+
  from assms(2) have f: "falsy (id_server server)"
    by (simp add: falsy_def)
  show ?thesis
  proof (cases "getActiveVault w windowId")
    case (Inl e)
    with u show ?thesis by (simp add: addMcpServer_cases)
  next
    case (Inr v)
    with u f show ?thesis
      by (simp add: addMcpServer_cases Let_def getMcpServers_written getMcpServers_cases
          assignProperty_def propertyKey_def)
  qed
qed

theorem addMcpServer_generated_id_witness:
  "uuidv4_output uuid1 \<and> id_server serverX = None \<and>
   fst (addMcpServer freshWorld uuid1 serverX None) = True \<and>
   getMcpServers (snd (addMcpServer freshWorld uuid1 serverX None)) None =
     [uuid1 \<mapsto> \<lparr>id_server = Some uuid1, config = ''x''\<rparr>] \<and>
   fst (addMcpServer lockedWorld uuid1 serverX None) = False \<and>
   fst (addMcpServer noVaultWorld uuid1 serverX None) = False"
proof -
  have f: "id_server serverX = None"
    by (simp add: serverX_def)
  show ?thesis
    using addMcpServer_generated_id [OF uuid1_output f, of freshWorld None]
      addMcpServer_generated_id [OF uuid1_output f, of lockedWorld None]
      addMcpServer_generated_id [OF uuid1_output f, of noVaultWorld None] f
    by (simp add: serverX_def)
qed

text \<open>
  Claim C3 as it is written fails where the generator returns an identifier that is
  already a key: the call succeeds, the generated id is not distinct from the keys
  present, and the record stored there before is replaced.
\<close>

theorem addMcpServer_generated_id_collision_counterexample:
  "uuidv4_output uuid1 \<and> id_server serverX = None \<and>
   getMcpServers usedWorld None uuid1 = Some \<lparr>id_server = Some uuid1, config = ''old''\<rparr> \<and>
   fst (addMcpServer usedWorld uuid1 serverX None) = True \<and>
   getMcpServers (snd (addMcpServer usedWorld uuid1 serverX None)) None uuid1 =
     Some \<lparr>id_server = Some uuid1, config = ''x''\<rparr>"
proof -
  have before:
    "getMcpServers usedWorld None uuid1 = Some \<lparr>id_server = Some uuid1, config = ''old''\<rparr>"
    by (simp add: used_servers)
  have none: "id_server serverX = None"
    by (simp add: serverX_def)
  then have f: "falsy (id_server serverX)"
    by (simp add: falsy_def)
  have key: "propertyKey (Some uuid1) = uuid1" "uuid1 \<noteq> ''__proto__''"
    by (simp_all add: propertyKey_def uuid1_def)
  have ok: "fst (addMcpServer usedWorld uuid1 serverX None) = True"
    using f by (simp add: addMcpServer_cases Let_def)
  have after: "getMcpServers (snd (addMcpServer usedWorld uuid1 serverX None)) None uuid1 =
     Some (serverX\<lparr>id_server := Some uuid1\<rparr>)"
    using f key by (simp add: addMcpServer_cases Let_def assignProperty_def getMcpServers_cases)
  have "serverX\<lparr>id_server := Some uuid1\<rparr> = \<lparr>id_server = Some uuid1, config = ''x''\<rparr>"
    by (simp add: serverX_def)
  with before none ok after show ?thesis by simp
qed



subsection \<open>Updating a server\<close>

text \<open>
  Claim C5. When the vault resolves and the write succeeds, and the id is a key of the
  vault's registry mapping, \<open>updateMcpServer\<close> returns true, and the mapping afterwards
  is the mapping before with, under that key, the given record with its id field set to
  the key, whatever id the record carried.
\<close>

theorem updateMcpServer_replaces:
  assumes "getActiveVault w windowId = Inr v"
    and "getMcpServersRegistryPath (path v) \<notin> readOnly w"
    and "getMcpServers w windowId serverId = Some old"
  shows "fst (updateMcpServer w serverId server windowId) = True \<and>
         getMcpServers (snd (updateMcpServer w serverId server windowId)) windowId =
           (getMcpServers w windowId)(serverId \<mapsto> server\<lparr>id_server := Some serverId\<rparr>)"
proof -
  let ?r = "readJsonFile w (getMcpServersRegistryPath (path v)) emptyRegistry"
  from assms(1,3) have own: "servers ?r serverId = Some old"
    by (simp add: getMcpServers_cases)
  then have "truthyProperty (servers ?r) serverId"
    and "assignProperty (servers ?r) serverId (server\<lparr>id_server := Some serverId\<rparr>) =
           (servers ?r)(serverId \<mapsto> server\<lparr>id_server := Some serverId\<rparr>)"
    by (simp_all add: truthyProperty_def assignProperty_def)
  with assms(1,2) show ?thesis
    by (simp add: updateMcpServer_cases Let_def getMcpServers_cases)
qed

theorem updateMcpServer_replaces_witness:
  "getActiveVault usedWorld None = Inr vaultA \<and>
   getMcpServersRegistryPath (path vaultA) \<notin> readOnly usedWorld \<and>
   getMcpServers usedWorld None uuid1 = Some \<lparr>id_server = Some uuid1, config = ''old''\<rparr> \<and>
   id_server serverY = Some ''other'' \<and>
   fst (updateMcpServer usedWorld uuid1 serverY None) = True \<and>
   getMcpServers (snd (updateMcpServer usedWorld uuid1 serverY None)) None =
     [uuid1 \<mapsto> \<lparr>id_server = Some uuid1, config = ''y''\<rparr>]"
proof -
  have a: "getActiveVault usedWorld None = Inr vaultA"
    and b: "getMcpServersRegistryPath (path vaultA) \<notin> readOnly usedWorld"
    by simp_all
  have c: "getMcpServers usedWorld None uuid1 =
      Some \<lparr>id_server = Some uuid1, config = ''old''\<rparr>"
    by (simp add: used_servers)
  show ?thesis
    using updateMcpServer_replaces [OF a b c, of serverY] a b c
    by (simp add: used_servers serverY_def)
qed

text \<open>
  For an id that is neither a key of the mapping nor the name of a property of
  \<^verbatim>\<open>Object.prototype\<close>, the update is refused and nothing is written.
\<close>

lemma updateMcpServer_absent:
  assumes "getMcpServers w windowId serverId = None"
    and "serverId \<notin> set objectPrototypeKeys"
  shows "updateMcpServer w serverId server windowId = (False, w)"
  using assms
  by (cases "getActiveVault w windowId")
    (simp_all add: updateMcpServer_cases Let_def getMcpServers_cases truthyProperty_def)

text \<open>
  Claim C4 says that an update under an id that is not a key returns false, writes
  nothing and inserts nothing. The code tests \<^verbatim>\<open>!registry.servers[serverId]\<close>, and on
  the empty registry the id \<^verbatim>\<open>toString\<close> reads the function inherited from
  \<^verbatim>\<open>Object.prototype\<close>: the update returns true and the record is inserted.
\<close>

theorem updateMcpServer_inherited_name:
  "getMcpServers freshWorld None ''toString'' = None \<and>
   fst (updateMcpServer freshWorld ''toString'' serverY None) = True \<and>
   getMcpServers (snd (updateMcpServer freshWorld ''toString'' serverY None)) None ''toString'' =
     Some \<lparr>id_server = Some ''toString'', config = ''y''\<rparr>"
  using fresh_read toString_inherited
  by (simp add: updateMcpServer_cases Let_def getMcpServers_cases assignProperty_def
      serverY_def)

subsection \<open>Removing a server\<close>

text \<open>
  For an id that is a key, when the vault resolves and the write succeeds, the removal
  returns true and deletes that key and no other.
\<close>

lemma removeMcpServer_present:
  assumes "getActiveVault w windowId = Inr v"
    and "getMcpServersRegistryPath (path v) \<notin> readOnly w"
    and "getMcpServers w windowId serverId = Some old"
  shows "fst (removeMcpServer w serverId windowId) = True \<and>
         getMcpServers (snd (removeMcpServer w serverId windowId)) windowId =
           (getMcpServers w windowId)(serverId := None)"
  using assms
  by (simp add: removeMcpServer_cases Let_def getMcpServers_cases truthyProperty_def
      deleteProperty_def)

text \<open>
  For an id that is neither a key nor the name of a property of \<^verbatim>\<open>Object.prototype\<close>,
  the removal is refused and nothing is written.
\<close>

lemma removeMcpServer_absent:
  assumes "getMcpServers w windowId serverId = None"
    and "serverId \<notin> set objectPrototypeKeys"
  shows "removeMcpServer w serverId windowId = (False, w)"
  using assms
  by (cases "getActiveVault w windowId")
    (simp_all add: removeMcpServer_cases Let_def getMcpServers_cases truthyProperty_def)

text \<open>
  Claim C6 says that removing an id that is not a key returns false. By the same test
  as in the update, removing \<^verbatim>\<open>toString\<close> from the empty registry returns true, and
  the registry file is written.
\<close>

theorem removeMcpServer_inherited_name:
  "getMcpServers freshWorld None ''toString'' = None \<and>
   removeMcpServer freshWorld ''toString'' None =
     (True, freshWorld\<lparr>files := [registryA \<mapsto> Document emptyRegistry]\<rparr>)"
proof -
  have d: "deleteProperty (servers (emptyRegistry :: string registry)) ''toString'' = Map.empty"
    by (simp add: deleteProperty_def)
  show ?thesis
    using fresh_read toString_inherited d
    by (simp add: removeMcpServer_cases Let_def example_files emptyRegistry_def)
qed

subsection \<open>Keys and ids\<close>

lemma keysAreIds_empty [simp]: "keysAreIds Map.empty"
  by (simp add: keysAreIds_def)

lemma keysAreIds_read:
  "diskKeysAreIds w \<Longrightarrow> keysAreIds (servers (readJsonFile w p emptyRegistry))"
  by (auto simp: diskKeysAreIds_def readJsonFile_def split: option.splits file_content.splits)

lemma diskKeysAreIds_write:
  "diskKeysAreIds w \<Longrightarrow> keysAreIds (servers d) \<Longrightarrow>
   diskKeysAreIds (w\<lparr>files := (files w)(p \<mapsto> Document d)\<rparr>)"
  by (simp add: diskKeysAreIds_def)

lemma keysAreIds_assign:
  "keysAreIds m \<Longrightarrow> id_server s = Some k \<Longrightarrow> keysAreIds (assignProperty m k s)"
  by (simp add: keysAreIds_def assignProperty_def)

lemma keysAreIds_delete: "keysAreIds m \<Longrightarrow> keysAreIds (deleteProperty m k)"
  by (simp add: keysAreIds_def deleteProperty_def)

lemma ensured_id:
  "id_server (if falsy (id_server server) then server\<lparr>id_server := Some uuid\<rparr> else server) =
     Some (propertyKey (id_server
       (if falsy (id_server server) then server\<lparr>id_server := Some uuid\<rparr> else server)))"
  by (cases "id_server server") (simp_all add: falsy_def propertyKey_def)

lemma addMcpServer_invariant:
  assumes "diskKeysAreIds w"
  shows "diskKeysAreIds (snd (addMcpServer w uuid server windowId))"
proof (cases "getActiveVault w windowId")
  case (Inl e)
  with assms show ?thesis by (simp add: addMcpServer_cases)
next
  case (Inr v)
  let ?p = "getMcpServersRegistryPath (path v)"
  let ?s = "if falsy (id_server server) then server\<lparr>id_server := Some uuid\<rparr> else server"
  have "keysAreIds (assignProperty (servers (readJsonFile w ?p emptyRegistry))
           (propertyKey (id_server ?s)) ?s)"
    using keysAreIds_read [OF assms] ensured_id by (rule keysAreIds_assign)
  with assms Inr show ?thesis
    by (simp add: addMcpServer_cases Let_def diskKeysAreIds_write)
qed

lemma updateMcpServer_invariant:
  assumes "diskKeysAreIds w"
  shows "diskKeysAreIds (snd (updateMcpServer w serverId server windowId))"
proof (cases "getActiveVault w windowId")
  case (Inl e)
  with assms show ?thesis by (simp add: updateMcpServer_cases)
next
  case (Inr v)
  let ?p = "getMcpServersRegistryPath (path v)"
  have "keysAreIds (assignProperty (servers (readJsonFile w ?p emptyRegistry)) serverId
           (server\<lparr>id_server := Some serverId\<rparr>))"
    using keysAreIds_read [OF assms] by (rule keysAreIds_assign) simp
  with assms Inr show ?thesis
    by (simp add: updateMcpServer_cases Let_def diskKeysAreIds_write)
qed

lemma removeMcpServer_invariant:
  assumes "diskKeysAreIds w"
  shows "diskKeysAreIds (snd (removeMcpServer w serverId windowId))"
proof (cases "getActiveVault w windowId")
  case (Inl e)
  with assms show ?thesis by (simp add: removeMcpServer_cases)
next
  case (Inr v)
  let ?p = "getMcpServersRegistryPath (path v)"
  have "keysAreIds (deleteProperty (servers (readJsonFile w ?p emptyRegistry)) serverId)"
    using keysAreIds_read [OF assms] by (rule keysAreIds_delete)
  with assms Inr show ?thesis
    by (simp add: removeMcpServer_cases Let_def diskKeysAreIds_write)
qed

lemma perform_invariant: "diskKeysAreIds w \<Longrightarrow> diskKeysAreIds (perform w c)"
  by (cases c)
    (simp_all add: addMcpServer_invariant updateMcpServer_invariant removeMcpServer_invariant)

lemma performAll_invariant: "diskKeysAreIds w \<Longrightarrow> diskKeysAreIds (performAll w cs)"
  by (induction cs arbitrary: w) (simp_all add: perform_invariant)

lemma getMcpServers_invariant: "diskKeysAreIds w \<Longrightarrow> keysAreIds (getMcpServers w windowId)"
  by (cases "getActiveVault w windowId") (simp_all add: getMcpServers_cases keysAreIds_read)

text \<open>
  Claim C2. Start with no registry file on disk, so that every vault's document is the
  default empty one, and perform any sequence of \<open>addMcpServer\<close>, \<open>updateMcpServer\<close> and
  \<open>removeMcpServer\<close> calls, from any windows and with any arguments. Then in every
  registry document on disk, and so in the mapping that any window lists, every key is
  the id of the record stored under it.
\<close>

theorem keys_equal_ids_invariant:
  assumes "files w = Map.empty"
  shows "diskKeysAreIds (performAll w calls) \<and>
         (getMcpServers (performAll w calls) windowId k = Some s \<longrightarrow> id_server s = Some k)"
proof -
  from assms have "diskKeysAreIds w"
    by (simp add: diskKeysAreIds_def)
  then have disk: "diskKeysAreIds (performAll w calls)"
    by (rule performAll_invariant)
  then have "keysAreIds (getMcpServers (performAll w calls) windowId)"
    by (rule getMcpServers_invariant)
  with disk show ?thesis
    by (simp add: keysAreIds_def)
qed

theorem keys_equal_ids_invariant_witness:
  "files freshWorld = Map.empty \<and>
   getMcpServers (performAll freshWorld someCalls) None uuid1 =
     Some \<lparr>id_server = Some uuid1, config = ''y''\<rparr>"
proof -
  have listed: "getMcpServers (performAll freshWorld someCalls) None uuid1 =
        Some \<lparr>id_server = Some uuid1, config = ''y''\<rparr>"
    by (simp add: someCalls_def addMcpServer_cases updateMcpServer_cases removeMcpServer_cases
        getMcpServers_cases Let_def readJsonFile_def object_defs serverX_def serverY_def
        uuid1_def example_files)
  show ?thesis
    using keys_equal_ids_invariant
        [of freshWorld someCalls None uuid1 "\<lparr>id_server = Some uuid1, config = ''y''\<rparr>"] listed
    by (simp add: example_files)
qed

end
